theory Spec2Isabelle
  imports
    Complex_Main
    "HOL-Library.Sublist"
    "HOL-Library.Char_ord"
    "HOL-Library.List_Lexorder"
    "HOL-Library.Product_Lexorder"
begin

chapter \<open>The draft-pick assistant: the page's state machine and the recommendation engine\<close>

text \<open>
  The development has two parts. The first embeds the draft page
  (\<^verbatim>\<open>web-ui/app/draft/page.tsx\<close>): its component state, its event handlers and the wiring
  of the handlers to the buttons. The second is a model of the analysis and recommendation
  engine, which the page only calls over HTTP; that part is written from the specification
  and says so at every definition.
\<close>

section \<open>JavaScript strings and arrays\<close>

text \<open>
  Strings are lists of characters. The string functions the page uses to take a string
  apart or to compare two (\<^verbatim>\<open>split\<close>, \<^verbatim>\<open>join\<close>, \<^verbatim>\<open>startsWith\<close>, \<^verbatim>\<open>endsWith\<close>, \<^verbatim>\<open>includes\<close>)
  only test characters for equality, and are defined below. \<^verbatim>\<open>toLowerCase\<close> is of another
  kind: it maps every cased letter of Unicode to its lower case. It is not defined here.
  Every definition of the page that lower-cases takes the function as its first argument,
  named \<open>toLowerCase\<close>, and what is proved of the page is proved for every such function.

  The function below lower-cases the letters A to Z (code points 65 to 90) and leaves every
  other character alone. On a string of ASCII characters that is what \<^verbatim>\<open>toLowerCase\<close>
  returns. It stands for \<^verbatim>\<open>toLowerCase\<close> in the examples, whose strings are all ASCII, and
  the model of the engine compares hero names through it.
\<close>

definition asciiLowerChar :: "char \<Rightarrow> char" where
  "asciiLowerChar c =
     (let n = (of_char c :: nat) in if 65 \<le> n \<and> n \<le> 90 then char_of (n + 32) else c)"

definition asciiLowerCase :: "string \<Rightarrow> string" where
  "asciiLowerCase s = map asciiLowerChar s"

text \<open>
  \<^verbatim>\<open>s.split(sep)\<close> for a one-character separator: the fields between the separators,
  empty fields included; the result always has at least one field
  (\<^verbatim>\<open>''.split('-')\<close> is \<^verbatim>\<open>['']\<close>).
\<close>

fun split :: "char \<Rightarrow> string \<Rightarrow> string list" where
  "split sep [] = [[]]"
| "split sep (c # cs) =
     (let ps = split sep cs in if c = sep then [] # ps else (c # hd ps) # tl ps)"

text \<open>\<^verbatim>\<open>xs.join(sep)\<close>.\<close>

fun join :: "string \<Rightarrow> string list \<Rightarrow> string" where
  "join sep [] = []"
| "join sep [x] = x"
| "join sep (x # y # ys) = x @ sep @ join sep (y # ys)"

text \<open>
  \<^verbatim>\<open>h.startsWith(p)\<close>, \<^verbatim>\<open>h.endsWith(p)\<close> and \<^verbatim>\<open>s.includes(q)\<close> on strings (the last one
  under the name \<open>includesStr\<close>, since \<open>includes\<close> is a keyword here). Membership in an array,
  \<^verbatim>\<open>xs.includes(x)\<close>, is written \<open>x \<in> set xs\<close>, and \<^verbatim>\<open>xs.some(p)\<close> is \<open>\<exists>x \<in> set xs. p x\<close>.
\<close>

definition startsWith :: "string \<Rightarrow> string \<Rightarrow> bool" where
  "startsWith h p = prefix p h"

definition endsWith :: "string \<Rightarrow> string \<Rightarrow> bool" where
  "endsWith h p = suffix p h"

definition includesStr :: "string \<Rightarrow> string \<Rightarrow> bool" where
  "includesStr s q = sublist q s"

section \<open>The page's data (lines 6 to 61)\<close>

datatype toastType = Success | Error | Warning | Info

text \<open>
  A toast without its \<^verbatim>\<open>id\<close>: the id is the wall clock (\<^verbatim>\<open>Date.now()\<close>) and only serves
  the timer that removes the toast after three seconds.
\<close>

record Toast =
  message :: string
  type :: toastType

record Hero =
  name :: string
  roles :: "string list"
  lanes :: "string list"
  damage_types :: "string list"

record Recommendation =
  hero :: string
  priority :: real
  reasons :: "string list"

text \<open>
  The nested object \<^verbatim>\<open>lane_validation: {valid, missing_lanes}\<close>; its second field is
  prefixed because the enclosing record has a field of the same name.
\<close>

record LaneValidation =
  valid :: bool
  lv_missing_lanes :: "string list"

text \<open>A \<^verbatim>\<open>Record<string, number>\<close> of counts is an association list in key order.\<close>

record TeamAnalysis =
  role_counts :: "(string \<times> nat) list"
  lane_counts :: "(string \<times> nat) list"
  role_diversity :: nat
  missing_lanes :: "string list"
  damage_balance :: string
  jungle_roam_valid :: string
  lane_validation :: LaneValidation

record DraftResponse =
  response_recommendations :: "Recommendation list"
  team_analysis :: "TeamAnalysis option"
  enemy_threats :: "(string \<times> string list) list option"
  success :: bool
  error :: "string option"

definition LANES :: "string list" where
  "LANES = [''gold'', ''jungle'', ''roam'', ''mid'', ''exp'']"

text \<open>The union type \<^verbatim>\<open>'banned' | 'enemy' | 'team'\<close> of the tabs and of \<^verbatim>\<open>listType\<close>.\<close>

datatype listType = Banned | Enemy | Team

section \<open>The component state (lines 64 to 75)\<close>

record draft_page =
  heroes :: "Hero list"
  banned :: "string list"
  enemy :: "string list"
  team :: "string list"
  userLane :: string
  teamLaneInput :: string
  recommendations :: "Recommendation list"
  teamAnalysis :: "TeamAnalysis option"
  loading :: bool
  searchQuery :: string
  activeTab :: listType
  toasts :: "Toast list"

definition initial :: draft_page where
  "initial =
     \<lparr>heroes = [], banned = [], enemy = [], team = [], userLane = ''gold'',
      teamLaneInput = ''gold'', recommendations = [], teamAnalysis = None, loading = False,
      searchQuery = [], activeTab = Banned, toasts = []\<rparr>"

section \<open>The handlers (lines 81 to 231)\<close>

definition showToast :: "string \<Rightarrow> toastType \<Rightarrow> draft_page \<Rightarrow> draft_page" where
  "showToast msg ty s = s\<lparr>toasts := toasts s @ [\<lparr>message = msg, type = ty\<rparr>]\<rparr>"

text \<open>
  A handler that shows a toast and returns early has rejected its input. The outcome names
  the branch taken; the state that goes with it carries the toast.
  \<^item> \<open>FormatInvalid\<close>: "Format salah! ..." (line 124)
  \<^item> \<open>InvalidLane\<close>: "Lane tidak valid! ..." (line 132)
  \<^item> \<open>HeroNotFound\<close>: "Hero tidak ditemukan!" (line 139)
  \<^item> \<open>DuplicateSelection\<close>: "Hero sudah dipilih!" (lines 145, 164), "Hero already selected!" (line 187)
  \<^item> \<open>LaneAlreadyTaken\<close>: "Lane ... sudah ada! ..." (lines 152, 171)
  \<^item> \<open>LaneRequired\<close>: "Untuk team, ketik: hero lane ..." (line 192)
\<close>

datatype rejection =
  FormatInvalid | InvalidLane | HeroNotFound | DuplicateSelection | LaneAlreadyTaken | LaneRequired

datatype outcome = Accepted | Rejected rejection

definition reject ::
  "rejection \<Rightarrow> string \<Rightarrow> toastType \<Rightarrow> draft_page \<Rightarrow> outcome \<times> draft_page" where
  "reject r msg ty s = (Rejected r, showToast msg ty s)"

text \<open>
  The test "hero is already in any list", written out three times in the source
  (lines 144, 163 and 186).
\<close>

definition alreadySelected :: "string \<Rightarrow> draft_page \<Rightarrow> bool" where
  "alreadySelected heroName s =
     (heroName \<in> set (banned s) \<or> heroName \<in> set (enemy s) \<or>
      (\<exists>h \<in> set (team s). startsWith h heroName))"

text \<open>The test "lane is already taken" (lines 150 and 169).\<close>

definition laneExists :: "string \<Rightarrow> draft_page \<Rightarrow> bool" where
  "laneExists lane s = (\<exists>h \<in> set (team s). endsWith h (''-'' @ lane))"

definition handleTeamInput ::
  "(string \<Rightarrow> string) \<Rightarrow> string \<Rightarrow> draft_page \<Rightarrow> outcome \<times> draft_page" where
  "handleTeamInput toLowerCase input s =
     (let parts = filter (\<lambda>p. p \<noteq> []) (split (CHR '' '') (toLowerCase input)) in
      if length parts \<noteq> 2 then
        reject FormatInvalid ''Format salah! Gunakan: hero lane (contoh: miya gold)'' Warning s
      else
        let heroName = parts ! 0; lane = parts ! 1 in
        if lane \<notin> set LANES then
          reject InvalidLane (''Lane tidak valid! Gunakan: '' @ join '', '' LANES) Warning s
        else if \<not> (\<exists>h \<in> set (heroes s). toLowerCase (name h) = heroName) then
          reject HeroNotFound ''Hero tidak ditemukan!'' Error s
        else if alreadySelected heroName s then
          reject DuplicateSelection ''Hero sudah dipilih!'' Warning s
        else if laneExists lane s then
          reject LaneAlreadyTaken (''Lane '' @ lane @ '' sudah ada! Pilih lane lain.'') Warning s
        else
          (Accepted, s\<lparr>team := team s @ [heroName @ ''-'' @ lane], searchQuery := []\<rparr>))"

definition addHeroWithLane :: "string \<Rightarrow> string \<Rightarrow> draft_page \<Rightarrow> outcome \<times> draft_page" where
  "addHeroWithLane heroName lane s =
     (if alreadySelected heroName s then
        reject DuplicateSelection ''Hero sudah dipilih!'' Warning s
      else if laneExists lane s then
        reject LaneAlreadyTaken (''Lane '' @ lane @ '' sudah ada! Pilih lane lain.'') Warning s
      else
        (Accepted,
         showToast (heroName @ '' added to team as '' @ lane @ ''!'') Success
           (s\<lparr>team := team s @ [heroName @ ''-'' @ lane], searchQuery := []\<rparr>)))"

definition addHeroToList :: "string \<Rightarrow> listType \<Rightarrow> draft_page \<Rightarrow> outcome \<times> draft_page" where
  "addHeroToList heroName lt s =
     (if alreadySelected heroName s then
        reject DuplicateSelection ''Hero already selected!'' Warning s
      else
        (case lt of
           Team \<Rightarrow> reject LaneRequired ''Untuk team, ketik: hero lane (contoh: miya gold)'' Info s
         | Banned \<Rightarrow>
             (Accepted,
              (showToast (heroName @ '' added to banned list!'') Success
                 (s\<lparr>banned := banned s @ [heroName]\<rparr>))\<lparr>searchQuery := []\<rparr>)
         | Enemy \<Rightarrow>
             (Accepted,
              (showToast (heroName @ '' added to enemy list!'') Success
                 (s\<lparr>enemy := enemy s @ [heroName]\<rparr>))\<lparr>searchQuery := []\<rparr>)))"

definition removeHeroFromList :: "string \<Rightarrow> listType \<Rightarrow> draft_page \<Rightarrow> draft_page" where
  "removeHeroFromList heroName lt s =
     (case lt of
        Team \<Rightarrow> s\<lparr>team := filter (\<lambda>h. \<not> startsWith h heroName) (team s)\<rparr>
      | Banned \<Rightarrow> s\<lparr>banned := filter (\<lambda>h. h \<noteq> heroName) (banned s)\<rparr>
      | Enemy \<Rightarrow> s\<lparr>enemy := filter (\<lambda>h. h \<noteq> heroName) (enemy s)\<rparr>)"

definition resetDraft :: "draft_page \<Rightarrow> draft_page" where
  "resetDraft s =
     s\<lparr>banned := [], enemy := [], team := [], recommendations := [], teamAnalysis := None\<rparr>"

definition filteredHeroes :: "(string \<Rightarrow> string) \<Rightarrow> draft_page \<Rightarrow> Hero list" where
  "filteredHeroes toLowerCase s =
     filter
       (\<lambda>hero.
          includesStr (toLowerCase (name hero)) (toLowerCase (searchQuery s)) \<and>
          name hero \<notin> set (banned s) \<and>
          name hero \<notin> set (enemy s) \<and>
          \<not> (\<exists>h \<in> set (team s). startsWith h (name hero)))
       (heroes s)"

definition getHeroLane :: "string \<Rightarrow> string" where
  "getHeroLane heroWithLane =
     (let parts = split (CHR ''-'') heroWithLane in if length parts > 1 then parts ! 1 else [])"

text \<open>
  The request's answer, as the handler sees it: \<open>Inr\<close> a response body, or \<open>Inl\<close> the
  \<^verbatim>\<open>detail\<close> of a failed request, when it has one. The handler is modelled at the moment
  the answer arrives (\<^verbatim>\<open>loading\<close> was set to true when the request left).
\<close>

definition getDraftRecommendations ::
  "string option + DraftResponse \<Rightarrow> draft_page \<Rightarrow> draft_page" where
  "getDraftRecommendations answer s =
     (case answer of
        Inr response \<Rightarrow>
          (if success response then
             showToast ''Recommendations loaded successfully!'' Success
               (s\<lparr>recommendations := response_recommendations response,
                  teamAnalysis := team_analysis response\<rparr>)
           else s)\<lparr>loading := False\<rparr>
      | Inl detail \<Rightarrow>
          (showToast
             (case detail of
                Some d \<Rightarrow> if d = [] then ''Failed to get recommendations'' else d
              | None \<Rightarrow> ''Failed to get recommendations'')
             Error s)\<lparr>loading := False\<rparr>)"

section \<open>The wiring of the handlers to the page (lines 279 to 575)\<close>

text \<open>
  A team entry is rendered with the name \<^verbatim>\<open>heroWithLane.split('-')[0]\<close> (line 417), and
  its remove button passes that name on (line 430).
\<close>

definition entryHeroName :: "string \<Rightarrow> string" where
  "entryHeroName heroWithLane = hd (split (CHR ''-'') heroWithLane)"

definition clickRemoveTeam :: "string \<Rightarrow> draft_page \<Rightarrow> draft_page" where
  "clickRemoveTeam heroWithLane s = removeHeroFromList (entryHeroName heroWithLane) Team s"

text \<open>The "+ Add to Team" button of a recommendation (line 557).\<close>

definition clickAddToTeam :: "Recommendation \<Rightarrow> draft_page \<Rightarrow> outcome \<times> draft_page" where
  "clickAddToTeam rec s = addHeroToList (hero rec) Team s"

text \<open>A click on a search result (line 371).\<close>

definition clickSearchResult :: "Hero \<Rightarrow> draft_page \<Rightarrow> outcome \<times> draft_page" where
  "clickSearchResult h s =
     (if activeTab s = Team then addHeroWithLane (name h) (teamLaneInput s) s
      else addHeroToList (name h) (activeTab s) s)"

text \<open>
  The states the page can be in. Every rule is one way the source changes the state:
  the fetch of the hero list, a button, the search box, the answer of the server, the timer
  of a toast, or a call of \<^verbatim>\<open>handleTeamInput\<close>. No element of the page calls that handler;
  its rule is there so that what holds of the reachable states holds with it in use as well.
  A rule's premises are the conditions under which the page offers the control: a lane button
  exists for each member of \<^verbatim>\<open>LANES\<close> only, the team-lane buttons belong to the team tab and
  one is disabled while its lane is taken, search results are the first ten filtered heroes
  and are shown only for a non-empty query, and a remove button belongs to a listed entry of
  the active tab.
\<close>

inductive reachable :: "(string \<Rightarrow> string) \<Rightarrow> draft_page \<Rightarrow> bool"
  for toLowerCase :: "string \<Rightarrow> string" where
  r_initial: "reachable toLowerCase initial"
| r_fetchHeroes: "reachable toLowerCase s \<Longrightarrow> reachable toLowerCase (s\<lparr>heroes := hs\<rparr>)"
| r_setUserLane:
    "reachable toLowerCase s \<Longrightarrow> lane \<in> set LANES \<Longrightarrow>
     reachable toLowerCase (s\<lparr>userLane := lane\<rparr>)"
| r_setActiveTab: "reachable toLowerCase s \<Longrightarrow> reachable toLowerCase (s\<lparr>activeTab := t\<rparr>)"
| r_setTeamLaneInput:
    "reachable toLowerCase s \<Longrightarrow> activeTab s = Team \<Longrightarrow> lane \<in> set LANES \<Longrightarrow>
     \<not> laneExists lane s \<Longrightarrow> reachable toLowerCase (s\<lparr>teamLaneInput := lane\<rparr>)"
| r_setSearchQuery: "reachable toLowerCase s \<Longrightarrow> reachable toLowerCase (s\<lparr>searchQuery := q\<rparr>)"
| r_clickSearchResult:
    "reachable toLowerCase s \<Longrightarrow> searchQuery s \<noteq> [] \<Longrightarrow>
     h \<in> set (take 10 (filteredHeroes toLowerCase s)) \<Longrightarrow>
     reachable toLowerCase (snd (clickSearchResult h s))"
| r_removeBanned:
    "reachable toLowerCase s \<Longrightarrow> activeTab s = Banned \<Longrightarrow> h \<in> set (banned s) \<Longrightarrow>
     reachable toLowerCase (removeHeroFromList h Banned s)"
| r_removeEnemy:
    "reachable toLowerCase s \<Longrightarrow> activeTab s = Enemy \<Longrightarrow> h \<in> set (enemy s) \<Longrightarrow>
     reachable toLowerCase (removeHeroFromList h Enemy s)"
| r_removeTeam:
    "reachable toLowerCase s \<Longrightarrow> activeTab s = Team \<Longrightarrow> e \<in> set (team s) \<Longrightarrow>
     reachable toLowerCase (clickRemoveTeam e s)"
| r_getDraftRecommendations:
    "reachable toLowerCase s \<Longrightarrow> reachable toLowerCase (getDraftRecommendations answer s)"
| r_loading: "reachable toLowerCase s \<Longrightarrow> reachable toLowerCase (s\<lparr>loading := True\<rparr>)"
| r_resetDraft: "reachable toLowerCase s \<Longrightarrow> reachable toLowerCase (resetDraft s)"
| r_clickAddToTeam:
    "reachable toLowerCase s \<Longrightarrow> rec \<in> set (recommendations s) \<Longrightarrow>
     reachable toLowerCase (snd (clickAddToTeam rec s))"
| r_handleTeamInput:
    "reachable toLowerCase s \<Longrightarrow> reachable toLowerCase (snd (handleTeamInput toLowerCase input s))"
| r_toastExpired:
    "reachable toLowerCase s \<Longrightarrow> reachable toLowerCase (s\<lparr>toasts := filter keep (toasts s)\<rparr>)"


section \<open>What the handlers maintain\<close>

text \<open>
  The facts about the selections that every handler preserves. A team entry stands for the
  hero \<open>h\<close> in lane \<open>l\<close> when it is \<open>h @ ''-'' @ l\<close> for a lane \<open>l\<close> of \<^verbatim>\<open>LANES\<close>: the user's
  lane and the lane of the team form are lanes, every team entry stands for some hero in
  some lane, no list holds a name twice, banned and enemy are disjoint, a hero with a team
  entry is neither banned nor an enemy, a hero has entries for one lane only, and a lane has
  entries for one hero only.
\<close>

definition page_invariant :: "draft_page \<Rightarrow> bool" where
  "page_invariant s =
     (userLane s \<in> set LANES \<and> teamLaneInput s \<in> set LANES \<and>
      (\<forall>e \<in> set (team s). \<exists>h l. l \<in> set LANES \<and> e = h @ ''-'' @ l) \<and>
      distinct (banned s) \<and> distinct (enemy s) \<and> distinct (team s) \<and>
      set (banned s) \<inter> set (enemy s) = {} \<and>
      (\<forall>h. \<forall>l \<in> set LANES. h @ ''-'' @ l \<in> set (team s) \<longrightarrow>
         h \<notin> set (banned s) \<and> h \<notin> set (enemy s)) \<and>
      (\<forall>h. \<forall>l \<in> set LANES. \<forall>l' \<in> set LANES.
         h @ ''-'' @ l \<in> set (team s) \<longrightarrow> h @ ''-'' @ l' \<in> set (team s) \<longrightarrow> l = l') \<and>
      (\<forall>h h'. \<forall>l \<in> set LANES.
         h @ ''-'' @ l \<in> set (team s) \<longrightarrow> h' @ ''-'' @ l \<in> set (team s) \<longrightarrow> h = h'))"

chapter \<open>The analysis and recommendation engine\<close>

text \<open>
  The page posts the draft to \<^verbatim>\<open>/draft\<close> and renders the answer; the code that computes the
  answer is not among the sources. Every definition of this chapter is therefore written from
  the specification (sections 3 and 4), and each says which sentences it follows.
\<close>

section \<open>Hero knowledge store (specification 3 and 4.1)\<close>

text \<open>
  Modelled from the spec: the store's hero, which the engine's source would declare. It is
  the page's \<open>Hero\<close> with the "set of hero names it counters" added; the store is the list of
  heroes in its stable order.
\<close>

record StoreHero = Hero +
  counters :: "string list"

type_synonym store = "StoreHero list"

text \<open>
  Modelled from the spec: hero identity ("unique name (case-insensitive)"), missing with the
  engine. Two names denote the same hero when they agree up to the case of their letters
  (the letters A to Z; the specification names no alphabet).
\<close>

definition same_hero :: "string \<Rightarrow> string \<Rightarrow> bool" where
  "same_hero a b = (asciiLowerCase a = asciiLowerCase b)"

definition named :: "string \<Rightarrow> string list \<Rightarrow> bool" where
  "named n ns = (\<exists>m \<in> set ns. same_hero m n)"

text \<open>
  Modelled from the spec: \<^verbatim>\<open>get(name)\<close> of the missing store, "fails with HeroNotFound if
  absent (name match is case-insensitive, exact otherwise)"; \<open>None\<close> is that failure.
\<close>

definition get :: "store \<Rightarrow> string \<Rightarrow> StoreHero option" where
  "get st n = find (\<lambda>h. same_hero (name h) n) st"

text \<open>
  Modelled from the spec: \<^verbatim>\<open>listCounters(heroName)\<close> of the missing store, the derived
  reverse index of the \<open>counters\<close> edges: the names of the heroes recorded as countering the
  hero, in the store's order, \<open>None\<close> (HeroNotFound) for an unknown name.
\<close>

definition listCounters :: "store \<Rightarrow> string \<Rightarrow> string list option" where
  "listCounters st n =
     (case get st n of
        None \<Rightarrow> None
      | Some h \<Rightarrow> Some (map name (filter (\<lambda>k. named (name h) (counters k)) st)))"

section \<open>Draft State (specification 3)\<close>

text \<open>
  Modelled from the spec: the Draft State of the missing engine, "banned: set of hero names,
  enemy: set of hero names, team: mapping from lane to hero name, user_lane". The team is the
  list of its (lane, hero) entries. The first three fields are prefixed because the page's
  state has fields of the same names.
\<close>

record DraftState =
  ds_banned :: "string list"
  ds_enemy :: "string list"
  ds_team :: "(string \<times> string) list"
  user_lane :: string

text \<open>
  Modelled from the spec: the invariants of a valid Draft State (section 3, "Invariants"):
  every name resolves in the store, the lanes are among the five and \<open>user_lane\<close> is one of
  them, no hero is selected twice, and no lane is assigned twice.
\<close>

definition valid_draft_state :: "store \<Rightarrow> DraftState \<Rightarrow> bool" where
  "valid_draft_state st d =
     (list_all (\<lambda>n. get st n \<noteq> None) (ds_banned d @ ds_enemy d @ map snd (ds_team d)) \<and>
      user_lane d \<in> set LANES \<and>
      list_all (\<lambda>l. l \<in> set LANES) (map fst (ds_team d)) \<and>
      distinct (map asciiLowerCase (ds_banned d @ ds_enemy d @ map snd (ds_team d))) \<and>
      distinct (map fst (ds_team d)))"

section \<open>Team Analyzer (specification 4.3)\<close>

text \<open>
  Modelled from the spec: the look-up of a list of names the engine makes through
  \<^verbatim>\<open>store.get\<close>; one unknown name fails the whole look-up.
\<close>

fun get_all :: "store \<Rightarrow> string list \<Rightarrow> StoreHero list option" where
  "get_all st [] = Some []"
| "get_all st (n # ns) =
     (case get st n of
        None \<Rightarrow> None
      | Some h \<Rightarrow> (case get_all st ns of None \<Rightarrow> None | Some hs \<Rightarrow> Some (h # hs)))"

text \<open>
  Modelled from the spec: the counting loop of \<open>damage_balance\<close>, "count team heroes whose
  damage-type set includes" the given type.
\<close>

fun count_damage :: "string \<Rightarrow> StoreHero list \<Rightarrow> nat" where
  "count_damage ty [] = 0"
| "count_damage ty (h # hs) =
     (if ty \<in> set (damage_types h) then Suc (count_damage ty hs) else count_damage ty hs)"

text \<open>
  Modelled from the spec: "team heroes whose damage-type set includes" a type, said of a
  name of the team: the name resolves to a hero that deals the type.
\<close>

definition deals :: "store \<Rightarrow> string \<Rightarrow> string \<Rightarrow> bool" where
  "deals st ty n = (case get st n of None \<Rightarrow> False | Some h \<Rightarrow> ty \<in> set (damage_types h))"

text \<open>
  Modelled from the spec: "Balanced iff P \<ge> 1 and M \<ge> 1; otherwise physical_heavy if
  P > M, else magic_heavy".
\<close>

definition balance_of :: "nat \<Rightarrow> nat \<Rightarrow> string" where
  "balance_of P M =
     (if 1 \<le> P \<and> 1 \<le> M then ''balanced''
      else if M < P then ''physical_heavy'' else ''magic_heavy'')"

text \<open>Modelled from the spec: whether a hero carries one of the given roles.\<close>

definition has_role :: "string list \<Rightarrow> StoreHero \<Rightarrow> bool" where
  "has_role rs h = (\<exists>r \<in> set rs. r \<in> set (roles h))"

text \<open>
  Modelled from the spec: \<open>jungle_roam_valid\<close>, "valid unless both the jungle slot and roam
  slot are filled and neither occupant's role set intersects" the roles of its slot
  ("jungle slot requires assassin or fighter; roam slot requires tank or support").
\<close>

definition jungle_roam :: "(string \<times> string) list \<Rightarrow> store \<Rightarrow> string" where
  "jungle_roam tm st =
     (case (map_of tm ''jungle'', map_of tm ''roam'') of
        (Some j, Some r) \<Rightarrow>
          (case (get st j, get st r) of
             (Some hj, Some hr) \<Rightarrow>
               if \<not> has_role [''assassin'', ''fighter''] hj \<and> \<not> has_role [''tank'', ''support''] hr
               then ''invalid'' else ''valid''
           | _ \<Rightarrow> ''valid'')
      | _ \<Rightarrow> ''valid'')"

text \<open>
  Modelled from the spec: \<^verbatim>\<open>analyze(team, store)\<close> of the missing engine, field by field as
  section 4.3 lists them. \<open>None\<close> is the failure of a look-up (4.5: "surfaced as
  EngineInternalError").
\<close>

definition analyze :: "(string \<times> string) list \<Rightarrow> store \<Rightarrow> TeamAnalysis option" where
  "analyze tm st =
     (case get_all st (map snd tm) of
        None \<Rightarrow> None
      | Some hs \<Rightarrow>
          (let rc = map (\<lambda>r. (r, length (filter (\<lambda>h. r \<in> set (roles h)) hs)))
                      (remdups (concat (map roles hs)));
               missing = filter (\<lambda>l. l \<notin> set (map fst tm)) LANES
           in Some
                \<lparr>role_counts = rc,
                 lane_counts = map (\<lambda>l. (l, if l \<in> set (map fst tm) then 1 else 0)) LANES,
                 role_diversity = length (filter (\<lambda>(r, n). 0 < n) rc),
                 missing_lanes = missing,
                 damage_balance =
                   balance_of (count_damage ''physical'' hs) (count_damage ''magic'' hs),
                 jungle_roam_valid = jungle_roam tm st,
                 lane_validation = \<lparr>valid = (missing = []), lv_missing_lanes = missing\<rparr>\<rparr>))"

section \<open>Enemy Threat Collector (specification 4.4)\<close>

text \<open>
  Modelled from the spec: "for each enemy hero name in Draft State, call
  \<^verbatim>\<open>store.listCounters(name)\<close>", the pairs in the order of the enemy list.
\<close>

fun collect_threats :: "store \<Rightarrow> string list \<Rightarrow> (string \<times> string list) list option" where
  "collect_threats st [] = Some []"
| "collect_threats st (e # es) =
     (case listCounters st e of
        None \<Rightarrow> None
      | Some cs \<Rightarrow>
          (case collect_threats st es of None \<Rightarrow> None | Some ts \<Rightarrow> Some ((e, cs) # ts)))"

section \<open>Recommendation Engine (specification 4.5)\<close>

text \<open>Modelled from the spec: the decimal numeral in "Adds N new role(s) to team".\<close>

fun showNat :: "nat \<Rightarrow> string" where
  "showNat n =
     (if n < 10 then [char_of (48 + n)] else showNat (n div 10) @ [char_of (48 + n mod 10)])"

text \<open>
  Modelled from the spec: the candidate set, "every hero in the store not present in banned,
  enemy, or any team lane".
\<close>

definition selected :: "DraftState \<Rightarrow> string list" where
  "selected d = ds_banned d @ ds_enemy d @ map snd (ds_team d)"

definition candidates :: "DraftState \<Rightarrow> store \<Rightarrow> StoreHero list" where
  "candidates d st = filter (\<lambda>h. \<not> named (name h) (selected d)) st"

text \<open>
  Modelled from the spec: the six scoring rules. Each gives its addition to the score and
  the reasons it appends, nothing when it does not fire. Scores are real numbers, as the
  specification has them; every weight is a multiple of one half.
\<close>

type_synonym contribution = "real \<times> string list"

text \<open>Modelled from the spec: rule 1, "Lane fit".\<close>

definition lane_fit :: "DraftState \<Rightarrow> StoreHero \<Rightarrow> contribution" where
  "lane_fit d c = (if user_lane d \<in> set (lanes c) then (3, [''Fits requested lane'']) else (0, []))"

text \<open>
  Modelled from the spec: rule 2, "Role diversity gain": the "roles the candidate has that
  are not already present with count > 0 in role_counts", 1.5 each.
\<close>

definition new_roles :: "TeamAnalysis \<Rightarrow> StoreHero \<Rightarrow> string list" where
  "new_roles a c =
     filter (\<lambda>r. \<not> (\<exists>(r', n) \<in> set (role_counts a). r' = r \<and> 0 < n)) (remdups (roles c))"

definition role_diversity_gain :: "TeamAnalysis \<Rightarrow> StoreHero \<Rightarrow> contribution" where
  "role_diversity_gain a c =
     (let n = length (new_roles a c) in
      if 0 < n then (real n * 1.5, [''Adds '' @ showNat n @ '' new role(s) to team''])
      else (0, []))"

text \<open>
  Modelled from the spec: rule 3, "Missing-lane fill", +2.0 "once, not per lane". The
  specification leaves the tail of the reason open ("Fills missing lane(s): ..."); here it
  lists the missing lanes the candidate can take.
\<close>

definition missing_lane_fill :: "TeamAnalysis \<Rightarrow> StoreHero \<Rightarrow> contribution" where
  "missing_lane_fill a c =
     (let ls = filter (\<lambda>l. l \<in> set (lanes c)) (missing_lanes a) in
      if ls \<noteq> [] then (2, [''Fills missing lane(s): '' @ join '', '' ls]) else (0, []))"

text \<open>
  Modelled from the spec: rule 4, "Damage-balance correction"; the type a team lacks is magic
  when it is physical-heavy and physical when it is magic-heavy.
\<close>

definition lacking_damage :: "string \<Rightarrow> string option" where
  "lacking_damage b =
     (if b = ''physical_heavy'' then Some ''magic''
      else if b = ''magic_heavy'' then Some ''physical'' else None)"

definition damage_balance_correction :: "TeamAnalysis \<Rightarrow> StoreHero \<Rightarrow> contribution" where
  "damage_balance_correction a c =
     (case lacking_damage (damage_balance a) of
        None \<Rightarrow> (0, [])
      | Some ty \<Rightarrow>
          if ty \<in> set (damage_types c) then (1.5, [''Improves damage balance'']) else (0, []))"

text \<open>
  Modelled from the spec: rule 5, "Counter value": "for each enemy hero whose threat list
  contains the candidate, +2.5 per enemy countered, reason Counters <enemy> per enemy, in
  enemy-input order".
\<close>

definition countered :: "(string \<times> string list) list \<Rightarrow> StoreHero \<Rightarrow> string list" where
  "countered threats c = map fst (filter (\<lambda>(e, cs). named (name c) cs) threats)"

definition counter_value :: "(string \<times> string list) list \<Rightarrow> StoreHero \<Rightarrow> contribution" where
  "counter_value threats c =
     (2.5 * real (length (countered threats c)),
      map (\<lambda>e. ''Counters '' @ e) (countered threats c))"

text \<open>
  Modelled from the spec: rule 6, "Jungle/roam correction": the analysis says "invalid" and
  the candidate has a role of the slot \<open>user_lane\<close> targets (assassin or fighter for jungle,
  tank or support for roam).
\<close>

definition jungle_roam_correction :: "DraftState \<Rightarrow> TeamAnalysis \<Rightarrow> StoreHero \<Rightarrow> contribution" where
  "jungle_roam_correction d a c =
     (if jungle_roam_valid a = ''invalid'' \<and>
         (user_lane d = ''jungle'' \<and> has_role [''assassin'', ''fighter''] c \<or>
          user_lane d = ''roam'' \<and> has_role [''tank'', ''support''] c)
      then (1, [''Resolves jungle/roam synergy gap'']) else (0, []))"

text \<open>
  Modelled from the spec: "Total score is the sum of fired rules"; the reasons are "kept in
  the firing order above".
\<close>

definition contributions ::
  "DraftState \<Rightarrow> TeamAnalysis \<Rightarrow> (string \<times> string list) list \<Rightarrow> StoreHero \<Rightarrow> contribution list" where
  "contributions d a threats c =
     [lane_fit d c, role_diversity_gain a c, missing_lane_fill a c,
      damage_balance_correction a c, counter_value threats c, jungle_roam_correction d a c]"

definition score ::
  "DraftState \<Rightarrow> TeamAnalysis \<Rightarrow> (string \<times> string list) list \<Rightarrow> StoreHero \<Rightarrow> Recommendation" where
  "score d a threats c =
     \<lparr>hero = name c,
      priority = sum_list (map fst (contributions d a threats c)),
      reasons = concat (map snd (contributions d a threats c))\<rparr>"

text \<open>
  Modelled from the spec: the ranking, "descending by score", "ties in score are broken by
  ascending hero name". The key of a recommendation is ordered lexicographically.
\<close>

definition rank_key :: "Recommendation \<Rightarrow> real \<times> string" where
  "rank_key r = (- priority r, hero r)"

definition default_limit :: nat where
  "default_limit = 10"

text \<open>
  Modelled from the spec: \<^verbatim>\<open>recommend(state, analysis, threats, store, limit)\<close> of the missing
  engine: every candidate scored, ranked, and "truncated to limit highest-scoring candidates".
\<close>

definition recommend ::
  "DraftState \<Rightarrow> TeamAnalysis \<Rightarrow> (string \<times> string list) list \<Rightarrow> store \<Rightarrow> nat \<Rightarrow>
   Recommendation list" where
  "recommend d a threats st limit =
     take limit (sort_key rank_key (map (score d a threats) (candidates d st)))"

text \<open>
  Modelled from the spec: the control flow of section 2, "Team Analyzer produces a Team
  Analysis, Enemy Threat Collector produces Enemy Threats, Recommendation Engine consumes"
  them; \<open>None\<close> is the EngineInternalError of a failed look-up.
\<close>

definition engine ::
  "DraftState \<Rightarrow> store \<Rightarrow> nat \<Rightarrow>
   (Recommendation list \<times> TeamAnalysis \<times> (string \<times> string list) list) option" where
  "engine d st limit =
     (case analyze (ds_team d) st of
        None \<Rightarrow> None
      | Some a \<Rightarrow>
          (case collect_threats st (ds_enemy d) of
             None \<Rightarrow> None
           | Some threats \<Rightarrow> Some (recommend d a threats st limit, a, threats)))"

chapter \<open>Concrete drafts\<close>

text \<open>Heroes of the game used in the examples below.\<close>

definition hero_of :: "string \<Rightarrow> string list \<Rightarrow> string list \<Rightarrow> string list \<Rightarrow> Hero" where
  "hero_of n rs ls ds = \<lparr>name = n, roles = rs, lanes = ls, damage_types = ds\<rparr>"

definition example_heroes :: "Hero list" where
  "example_heroes =
     [hero_of ''miya'' [''marksman''] [''gold''] [''physical''],
      hero_of ''layla'' [''marksman''] [''gold''] [''physical''],
      hero_of ''vale'' [''mage''] [''mid''] [''magic''],
      hero_of ''valentina'' [''mage''] [''mid''] [''magic''],
      hero_of ''lapu-lapu'' [''fighter''] [''exp''] [''physical'']]"

definition example_page :: draft_page where
  "example_page = initial\<lparr>heroes := example_heroes\<rparr>"

text \<open>States of the page, each built by the handlers from the page with the heroes loaded.\<close>

definition page_miya_gold :: draft_page where
  "page_miya_gold = snd (handleTeamInput asciiLowerCase ''miya gold'' example_page)"



definition page_vale_valentina :: draft_page where
  "page_vale_valentina =
     snd (handleTeamInput asciiLowerCase ''valentina exp''
            (snd (handleTeamInput asciiLowerCase ''vale mid'' example_page)))"




text \<open>The store, the team and the enemy of the specification's scenarios A and B.\<close>

definition store_hero ::
  "string \<Rightarrow> string list \<Rightarrow> string list \<Rightarrow> string list \<Rightarrow> string list \<Rightarrow> StoreHero" where
  "store_hero n rs ls ds cs = \<lparr>name = n, roles = rs, lanes = ls, damage_types = ds, counters = cs\<rparr>"

definition scenario_store :: store where
  "scenario_store =
     [store_hero ''Layla'' [''marksman''] [''gold''] [''physical''] [],
      store_hero ''Estes'' [''support''] [''roam''] [''magic''] [],
      store_hero ''Khufra'' [''tank''] [''roam''] [''magic''] [''Layla'']]"

definition scenario_A :: DraftState where
  "scenario_A = \<lparr>ds_banned = [], ds_enemy = [], ds_team = [(''gold'', ''Layla'')], user_lane = ''roam''\<rparr>"

definition scenario_B :: DraftState where
  "scenario_B = \<lparr>ds_banned = [], ds_enemy = [''Layla''], ds_team = [], user_lane = ''roam''\<rparr>"

text \<open>
  Scenario A with Estes banned (written in capitals), and the store with Atlas added, a hero
  with the roles, lanes and damage types of Khufra who counters nobody.
\<close>

definition scenario_A_banned :: DraftState where
  "scenario_A_banned = scenario_A\<lparr>ds_banned := [''ESTES'']\<rparr>"

definition scenario_store_twin :: store where
  "scenario_store_twin =
     scenario_store @ [store_hero ''Atlas'' [''tank''] [''roam''] [''magic''] []]"

text \<open>The analyses of the teams of scenarios A and B (the latter is the empty team).\<close>

definition scenario_A_analysis :: TeamAnalysis where
  "scenario_A_analysis =
     \<lparr>role_counts = [(''marksman'', 1)],
      lane_counts = [(''gold'', 1), (''jungle'', 0), (''roam'', 0), (''mid'', 0), (''exp'', 0)],
      role_diversity = 1,
      missing_lanes = [''jungle'', ''roam'', ''mid'', ''exp''],
      damage_balance = ''physical_heavy'',
      jungle_roam_valid = ''valid'',
      lane_validation =
        \<lparr>valid = False, lv_missing_lanes = [''jungle'', ''roam'', ''mid'', ''exp'']\<rparr>\<rparr>"

definition scenario_B_analysis :: TeamAnalysis where
  "scenario_B_analysis =
     \<lparr>role_counts = [],
      lane_counts = [(''gold'', 0), (''jungle'', 0), (''roam'', 0), (''mid'', 0), (''exp'', 0)],
      role_diversity = 0,
      missing_lanes = [''gold'', ''jungle'', ''roam'', ''mid'', ''exp''],
      damage_balance = ''magic_heavy'',
      jungle_roam_valid = ''valid'',
      lane_validation =
        \<lparr>valid = False, lv_missing_lanes = [''gold'', ''jungle'', ''roam'', ''mid'', ''exp'']\<rparr>\<rparr>"



chapter \<open>Properties of the page\<close>

section \<open>Splitting and team entries\<close>

lemma split_not_Nil [simp]: "split sep s \<noteq> []"
  by (induction s) (auto simp: Let_def)

lemma hd_split: "hd (split sep s) = takeWhile (\<lambda>c. c \<noteq> sep) s"
  by (induction s) (auto simp: Let_def)

lemma tl_split:
  "tl (split sep s) =
     (case dropWhile (\<lambda>c. c \<noteq> sep) s of [] \<Rightarrow> [] | _ # r \<Rightarrow> split sep r)"
  by (induction s) (auto simp: Let_def)

lemma length_split_gt1: "Suc 0 < length (split sep s) \<longleftrightarrow> sep \<in> set s"
proof (induction s)
  case Nil
  show ?case by simp
next
  case (Cons c cs)
  have "length (split sep cs) \<noteq> 0" by simp
  then have pos: "0 < length (split sep cs)" by blast
  show ?case
  proof (cases "c = sep")
    case True
    with pos show ?thesis by (simp add: Let_def)
  next
    case False
    have "length ((c # hd (split sep cs)) # tl (split sep cs)) = length (split sep cs)"
      using pos by (cases "split sep cs") auto
    with False Cons show ?thesis by (simp add: Let_def)
  qed
qed

lemma nth1_split:
  "Suc 0 < length (split sep s) \<Longrightarrow>
   split sep s ! Suc 0 = takeWhile (\<lambda>c. c \<noteq> sep) (tl (dropWhile (\<lambda>c. c \<noteq> sep) s))"
proof -
  assume len: "Suc 0 < length (split sep s)"
  then have mem: "sep \<in> set s" by (simp add: length_split_gt1)
  then obtain r where r: "dropWhile (\<lambda>c. c \<noteq> sep) s = sep # r"
    by (metis (mono_tags, lifting) dropWhile_eq_Nil_conv hd_dropWhile list.exhaust_sel)
  have "split sep s ! Suc 0 = hd (tl (split sep s))"
    using len by (cases "split sep s"; cases "tl (split sep s)") auto
  also have "\<dots> = hd (split sep r)" by (simp add: tl_split r)
  also have "\<dots> = takeWhile (\<lambda>c. c \<noteq> sep) r" by (rule hd_split)
  finally show ?thesis by (simp add: r)
qed

lemma dropWhile_hyphen_free:
  "CHR ''-'' \<notin> set e \<Longrightarrow> dropWhile (\<lambda>c. c \<noteq> CHR ''-'') e = []"
  by (induction e) auto

lemma getHeroLane_eq:
  "getHeroLane e =
     takeWhile (\<lambda>c. c \<noteq> CHR ''-'') (tl (dropWhile (\<lambda>c. c \<noteq> CHR ''-'') e))"
proof (cases "CHR ''-'' \<in> set e")
  case True
  then show ?thesis by (simp add: getHeroLane_def Let_def length_split_gt1 nth1_split)
next
  case False
  then show ?thesis
    by (simp add: getHeroLane_def Let_def length_split_gt1 dropWhile_hyphen_free)
qed

lemma dropWhile_hyphen_append:
  "CHR ''-'' \<notin> set h \<Longrightarrow> dropWhile (\<lambda>c. c \<noteq> CHR ''-'') (h @ CHR ''-'' # r) = CHR ''-'' # r"
  by (induction h) auto

lemma takeWhile_hyphen_append:
  "CHR ''-'' \<notin> set h \<Longrightarrow> takeWhile (\<lambda>c. c \<noteq> CHR ''-'') (h @ CHR ''-'' # r) = h"
  by (induction h) auto

lemma takeWhile_hyphen_free: "CHR ''-'' \<notin> set l \<Longrightarrow> takeWhile (\<lambda>c. c \<noteq> CHR ''-'') l = l"
  by (induction l) auto

lemma takeWhile_hyphen_stop:
  "takeWhile (\<lambda>c. c \<noteq> CHR ''-'') (r @ CHR ''-'' # l) = takeWhile (\<lambda>c. c \<noteq> CHR ''-'') r"
  by (induction r) auto

lemma LANES_hyphen_free: "lane \<in> set LANES \<Longrightarrow> CHR ''-'' \<notin> set lane"
  by (auto simp: LANES_def)




lemma startsWith_entry: "startsWith (h @ ''-'' @ l) h"
  by (simp add: startsWith_def)




lemma page_invariant_cong:
  "userLane s' = userLane s \<Longrightarrow> teamLaneInput s' = teamLaneInput s \<Longrightarrow> team s' = team s \<Longrightarrow>
   banned s' = banned s \<Longrightarrow> enemy s' = enemy s \<Longrightarrow> page_invariant s' = page_invariant s"
  by (simp add: page_invariant_def)




lemma page_invariant_showToast [simp]: "page_invariant (showToast m t s) = page_invariant s"
  by (rule page_invariant_cong) (simp_all add: showToast_def)









section \<open>Rejections and example states\<close>

lemma reject_eq:
  "reject r m t s = (Rejected r, s\<lparr>toasts := toasts s @ [\<lparr>message = m, type = t\<rparr>]\<rparr>)"
  by (simp add: reject_def showToast_def)

lemma reachable_example_page: "reachable asciiLowerCase example_page"
  unfolding example_page_def by (rule r_fetchHeroes [OF r_initial])





lemma reachable_page_vale_valentina: "reachable asciiLowerCase page_vale_valentina"
  unfolding page_vale_valentina_def
  by (intro r_handleTeamInput reachable_example_page)

lemma handleTeamInput_parts:
  assumes "filter (\<lambda>p. p \<noteq> []) (split (CHR '' '') (toLowerCase input)) = [heroName, lane]"
  shows "handleTeamInput toLowerCase input s =
     (if lane \<notin> set LANES then
        reject InvalidLane (''Lane tidak valid! Gunakan: '' @ join '', '' LANES) Warning s
      else if \<not> (\<exists>h \<in> set (heroes s). toLowerCase (name h) = heroName) then
        reject HeroNotFound ''Hero tidak ditemukan!'' Error s
      else if alreadySelected heroName s then
        reject DuplicateSelection ''Hero sudah dipilih!'' Warning s
      else if laneExists lane s then
        reject LaneAlreadyTaken (''Lane '' @ lane @ '' sudah ada! Pilih lane lain.'') Warning s
      else
        (Accepted, s\<lparr>team := team s @ [heroName @ ''-'' @ lane], searchQuery := []\<rparr>))"
  unfolding handleTeamInput_def Let_def assms by simp

lemma join_LANES: "join '', '' LANES = ''gold, jungle, roam, mid, exp''"
  by (simp add: LANES_def)


lemma handleTeamInput_cases:
  obtains (format) "handleTeamInput toLowerCase input s =
      reject FormatInvalid ''Format salah! Gunakan: hero lane (contoh: miya gold)'' Warning s"
  | (parts) heroName lane where
      "filter (\<lambda>p. p \<noteq> []) (split (CHR '' '') (toLowerCase input)) = [heroName, lane]"
proof (cases "length (filter (\<lambda>p. p \<noteq> []) (split (CHR '' '') (toLowerCase input))) = 2")
  case False
  then have "handleTeamInput toLowerCase input s =
      reject FormatInvalid ''Format salah! Gunakan: hero lane (contoh: miya gold)'' Warning s"
    unfolding handleTeamInput_def Let_def by simp
  then show ?thesis by (rule format)
next
  case True
  then obtain heroName lane where
    "filter (\<lambda>p. p \<noteq> []) (split (CHR '' '') (toLowerCase input)) = [heroName, lane]"
    by (auto simp: length_Suc_conv numeral_2_eq_2)
  then show ?thesis by (rule parts)
qed

lemma handleTeamInput_accepted:
  assumes acc: "fst (handleTeamInput toLowerCase input s) = Accepted"
  shows "\<exists>h l. l \<in> set LANES \<and> team (snd (handleTeamInput toLowerCase input s)) = team s @ [h @ ''-'' @ l]"
proof (cases toLowerCase input s rule: handleTeamInput_cases)
  case format
  with acc show ?thesis by (simp add: reject_def)
next
  case (parts heroName lane)
  note eq = handleTeamInput_parts [of toLowerCase input heroName lane s, OF parts]
  from acc have "lane \<in> set LANES \<and>
      handleTeamInput toLowerCase input s =
        (Accepted, s\<lparr>team := team s @ [heroName @ ''-'' @ lane], searchQuery := []\<rparr>)"
    unfolding eq by (simp add: reject_def split: if_splits)
  then show ?thesis by auto
qed



section \<open>Removing a team entry\<close>

text \<open>
  Claim C8. \<^verbatim>\<open>removeHeroFromList(heroName, 'team')\<close> keeps exactly the team entries that do
  not start with \<open>heroName\<close>, in their order, and leaves banned and enemy alone. So an entry of
  any hero whose name starts with \<open>heroName\<close> goes too, whatever its lane; and since the remove
  button of an entry passes the part of the entry before its first hyphen, clicking it on the
  entry of a hero with a hyphen-free name also removes the entries of every hero whose name
  extends that name.
\<close>

theorem removeHeroFromList_team_by_prefix:
  "team (removeHeroFromList heroName Team s) = filter (\<lambda>e. \<not> prefix heroName e) (team s) \<and>
   banned (removeHeroFromList heroName Team s) = banned s \<and>
   enemy (removeHeroFromList heroName Team s) = enemy s \<and>
   (\<forall>e. e \<in> set (team (removeHeroFromList heroName Team s)) \<longleftrightarrow>
        e \<in> set (team s) \<and> \<not> prefix heroName e) \<and>
   (\<forall>other lane. prefix heroName other \<longrightarrow>
        other @ ''-'' @ lane \<notin> set (team (removeHeroFromList heroName Team s))) \<and>
   (\<forall>lane1 other lane2. CHR ''-'' \<notin> set heroName \<and> prefix heroName other \<longrightarrow>
        other @ ''-'' @ lane2 \<notin> set (team (clickRemoveTeam (heroName @ ''-'' @ lane1) s)))"
proof -
  have t: "team (removeHeroFromList heroName Team s) = filter (\<lambda>e. \<not> prefix heroName e) (team s)"
    by (simp add: removeHeroFromList_def startsWith_def)
  have p: "\<And>other lane. prefix heroName other \<Longrightarrow> prefix heroName (other @ ''-'' @ lane)"
    by (rule prefix_prefix)
  have c: "\<And>lane1. CHR ''-'' \<notin> set heroName \<Longrightarrow>
      clickRemoveTeam (heroName @ CHR ''-'' # lane1) s = removeHeroFromList heroName Team s"
    by (simp add: clickRemoveTeam_def entryHeroName_def hd_split takeWhile_hyphen_append)
  have b: "banned (removeHeroFromList heroName Team s) = banned s"
    "enemy (removeHeroFromList heroName Team s) = enemy s"
    by (simp_all add: removeHeroFromList_def)
  have m: "\<forall>e. e \<in> set (team (removeHeroFromList heroName Team s)) \<longleftrightarrow>
        e \<in> set (team s) \<and> \<not> prefix heroName e"
    by (simp add: t)
  have o: "\<forall>other lane. prefix heroName other \<longrightarrow>
        other @ ''-'' @ lane \<notin> set (team (removeHeroFromList heroName Team s))"
    using p by (simp add: t)
  have k: "\<forall>lane1 other lane2. CHR ''-'' \<notin> set heroName \<and> prefix heroName other \<longrightarrow>
        other @ ''-'' @ lane2 \<notin> set (team (clickRemoveTeam (heroName @ ''-'' @ lane1) s))"
    using o by (simp add: c)
  from t b m o k show ?thesis by blast
qed

theorem removeHeroFromList_team_by_prefix_witness:
  "team page_vale_valentina = [''vale-mid'', ''valentina-exp''] \<and>
   prefix ''vale'' ''valentina'' \<and>
   ''valentina-exp'' \<notin> set (team (clickRemoveTeam ''vale-mid'' page_vale_valentina)) \<and>
   team (removeHeroFromList ''vale'' Team page_vale_valentina) = []"
proof -
  note T = removeHeroFromList_team_by_prefix [of "''vale''" page_vale_valentina]
  have 1: "team page_vale_valentina = [''vale-mid'', ''valentina-exp'']" by code_simp
  have 2: "prefix ''vale'' ''valentina''" by simp
  have 3: "CHR ''-'' \<notin> set ''vale''" by simp
  from T 2 3 have "''valentina'' @ ''-'' @ ''exp''
      \<notin> set (team (clickRemoveTeam (''vale'' @ ''-'' @ ''mid'') page_vale_valentina))"
    by blast
  then have 4: "''valentina-exp'' \<notin> set (team (clickRemoveTeam ''vale-mid'' page_vale_valentina))"
    by simp
  from T have "team (removeHeroFromList ''vale'' Team page_vale_valentina) =
      filter (\<lambda>e. \<not> prefix ''vale'' e) (team page_vale_valentina)" by blast
  then have 5: "team (removeHeroFromList ''vale'' Team page_vale_valentina) = []"
    by (simp add: 1)
  from 1 2 4 5 show ?thesis by blast
qed

section \<open>Decoding a team entry\<close>

text \<open>
  Claim C9, as amended. Both accepting handlers append the entry \<open>hero @ ''-'' @ lane\<close>;
  for \<^verbatim>\<open>handleTeamInput\<close> the hero and the lane are the two words of the input in lower case.
  \<^verbatim>\<open>getHeroLane\<close> returns the field between the first hyphen of the entry and the next one
  (or the end of the entry), the empty string when there is no hyphen; the page's name of an
  entry, \<^verbatim>\<open>split('-')[0]\<close>, is the part before the first hyphen. Therefore a hyphen-free
  hero name and a hyphen-free lane (every lane of \<^verbatim>\<open>LANES\<close> is one) are both recovered,
  while for a hero name \<open>h0 @ ''-'' @ rest\<close> the name shown is \<open>h0\<close> and the lane shown is
  the part of \<open>rest\<close> before its first hyphen: two fragments of the name.
\<close>

theorem team_entry_decoding:
  "(fst (addHeroWithLane heroName lane s) = Accepted \<longrightarrow>
      team (snd (addHeroWithLane heroName lane s)) = team s @ [heroName @ ''-'' @ lane]) \<and>
   (fst (handleTeamInput toLowerCase input s) = Accepted \<longrightarrow>
      (\<exists>h l. team (snd (handleTeamInput toLowerCase input s)) = team s @ [h @ ''-'' @ l])) \<and>
   (filter (\<lambda>p. p \<noteq> []) (split (CHR '' '') (toLowerCase input)) = [typedHero, typedLane] \<and>
    fst (handleTeamInput toLowerCase input s) = Accepted \<longrightarrow>
      team (snd (handleTeamInput toLowerCase input s)) =
        team s @ [typedHero @ ''-'' @ typedLane]) \<and>
   getHeroLane e =
     takeWhile (\<lambda>c. c \<noteq> CHR ''-'') (tl (dropWhile (\<lambda>c. c \<noteq> CHR ''-'') e)) \<and>
   entryHeroName e = takeWhile (\<lambda>c. c \<noteq> CHR ''-'') e \<and>
   (CHR ''-'' \<notin> set h \<longrightarrow> entryHeroName (h @ ''-'' @ l) = h) \<and>
   (CHR ''-'' \<notin> set h \<and> CHR ''-'' \<notin> set l \<longrightarrow> getHeroLane (h @ ''-'' @ l) = l) \<and>
   (CHR ''-'' \<notin> set h \<and> l \<in> set LANES \<longrightarrow> getHeroLane (h @ ''-'' @ l) = l) \<and>
   (CHR ''-'' \<notin> set h0 \<longrightarrow>
      entryHeroName ((h0 @ ''-'' @ rest) @ ''-'' @ l) = h0 \<and>
      getHeroLane ((h0 @ ''-'' @ rest) @ ''-'' @ l) = takeWhile (\<lambda>c. c \<noteq> CHR ''-'') rest)"
proof -
  have a: "fst (addHeroWithLane heroName lane s) = Accepted \<longrightarrow>
      team (snd (addHeroWithLane heroName lane s)) = team s @ [heroName @ ''-'' @ lane]"
    by (simp add: addHeroWithLane_def reject_def showToast_def)
  have b: "fst (handleTeamInput toLowerCase input s) = Accepted \<longrightarrow>
      (\<exists>h l. team (snd (handleTeamInput toLowerCase input s)) = team s @ [h @ ''-'' @ l])"
    by (auto simp: handleTeamInput_def reject_def Let_def split: if_splits)
  have b': "filter (\<lambda>p. p \<noteq> []) (split (CHR '' '') (toLowerCase input)) = [typedHero, typedLane] \<and>
    fst (handleTeamInput toLowerCase input s) = Accepted \<longrightarrow>
      team (snd (handleTeamInput toLowerCase input s)) =
        team s @ [typedHero @ ''-'' @ typedLane]"
  proof (intro impI, elim conjE)
    assume parts: "filter (\<lambda>p. p \<noteq> []) (split (CHR '' '') (toLowerCase input)) =
        [typedHero, typedLane]"
      and acc: "fst (handleTeamInput toLowerCase input s) = Accepted"
    note eq = handleTeamInput_parts [of toLowerCase input typedHero typedLane s, OF parts]
    from acc have "handleTeamInput toLowerCase input s =
        (Accepted, s\<lparr>team := team s @ [typedHero @ ''-'' @ typedLane], searchQuery := []\<rparr>)"
      unfolding eq by (simp add: reject_def split: if_splits)
    then show "team (snd (handleTeamInput toLowerCase input s)) =
        team s @ [typedHero @ ''-'' @ typedLane]"
      by simp
  qed
  have c: "entryHeroName e = takeWhile (\<lambda>c. c \<noteq> CHR ''-'') e"
    by (simp add: entryHeroName_def hd_split)
  have d: "CHR ''-'' \<notin> set h \<longrightarrow> entryHeroName (h @ ''-'' @ l) = h"
    by (simp add: entryHeroName_def hd_split takeWhile_hyphen_append)
  have e: "CHR ''-'' \<notin> set h \<and> CHR ''-'' \<notin> set l \<longrightarrow> getHeroLane (h @ ''-'' @ l) = l"
    by (simp add: getHeroLane_eq dropWhile_hyphen_append takeWhile_hyphen_free)
  have f: "CHR ''-'' \<notin> set h \<and> l \<in> set LANES \<longrightarrow> getHeroLane (h @ ''-'' @ l) = l"
    using e LANES_hyphen_free by blast
  have g: "CHR ''-'' \<notin> set h0 \<longrightarrow>
      entryHeroName ((h0 @ ''-'' @ rest) @ ''-'' @ l) = h0 \<and>
      getHeroLane ((h0 @ ''-'' @ rest) @ ''-'' @ l) = takeWhile (\<lambda>c. c \<noteq> CHR ''-'') rest"
  proof
    assume h0: "CHR ''-'' \<notin> set h0"
    have "entryHeroName (h0 @ CHR ''-'' # (rest @ ''-'' @ l)) = h0"
      unfolding entryHeroName_def hd_split by (rule takeWhile_hyphen_append [OF h0])
    moreover have "getHeroLane (h0 @ CHR ''-'' # (rest @ ''-'' @ l)) =
        takeWhile (\<lambda>c. c \<noteq> CHR ''-'') rest"
      unfolding getHeroLane_eq dropWhile_hyphen_append [OF h0]
      by (simp add: takeWhile_hyphen_stop)
    ultimately show "entryHeroName ((h0 @ ''-'' @ rest) @ ''-'' @ l) = h0 \<and>
      getHeroLane ((h0 @ ''-'' @ rest) @ ''-'' @ l) = takeWhile (\<lambda>c. c \<noteq> CHR ''-'') rest"
      by simp
  qed
  show ?thesis by (intro conjI a b b' getHeroLane_eq c d e f g)
qed

theorem team_entry_decoding_witness:
  "fst (addHeroWithLane ''miya'' ''gold'' example_page) = Accepted \<and>
   team (snd (addHeroWithLane ''miya'' ''gold'' example_page)) = [''miya-gold''] \<and>
   fst (handleTeamInput asciiLowerCase ''layla mid'' example_page) = Accepted \<and>
   (\<exists>h l. team (snd (handleTeamInput asciiLowerCase ''layla mid'' example_page)) =
      team example_page @ [h @ ''-'' @ l]) \<and>
   filter (\<lambda>p. p \<noteq> []) (split (CHR '' '') (asciiLowerCase ''Layla Mid'')) = [''layla'', ''mid''] \<and>
   fst (handleTeamInput asciiLowerCase ''Layla Mid'' example_page) = Accepted \<and>
   team (snd (handleTeamInput asciiLowerCase ''Layla Mid'' example_page)) = [''layla-mid''] \<and>
   getHeroLane ''miya-gold'' = ''gold'' \<and> entryHeroName ''miya-gold'' = ''miya'' \<and>
   entryHeroName ''lapu-lapu-exp'' = ''lapu'' \<and> getHeroLane ''lapu-lapu-exp'' = ''lapu''"
proof -
  note M = team_entry_decoding [where heroName = "''miya''" and lane = "''gold''"
      and s = example_page and h = "''miya''" and l = "''gold''"]
  note L = team_entry_decoding [where ?h0.0 = "''lapu''" and rest = "''lapu''" and l = "''exp''"]
  have a: "fst (addHeroWithLane ''miya'' ''gold'' example_page) = Accepted" by code_simp
  have e: "team example_page = []" by code_simp
  from M a have 1: "team (snd (addHeroWithLane ''miya'' ''gold'' example_page)) =
      team example_page @ [''miya'' @ ''-'' @ ''gold'']" by blast
  have n: "CHR ''-'' \<notin> set ''miya''" "''gold'' \<in> set LANES" "CHR ''-'' \<notin> set ''lapu''"
    by (simp_all add: LANES_def)
  from M n have 2: "getHeroLane (''miya'' @ ''-'' @ ''gold'') = ''gold''"
    "entryHeroName (''miya'' @ ''-'' @ ''gold'') = ''miya''" by blast+
  from L n have 3: "entryHeroName ((''lapu'' @ ''-'' @ ''lapu'') @ ''-'' @ ''exp'') = ''lapu''"
    "getHeroLane ((''lapu'' @ ''-'' @ ''lapu'') @ ''-'' @ ''exp'') =
       takeWhile (\<lambda>c. c \<noteq> CHR ''-'') ''lapu''" by blast+
  have i: "fst (handleTeamInput asciiLowerCase ''layla mid'' example_page) = Accepted" by code_simp
  from team_entry_decoding [where toLowerCase = asciiLowerCase and input = "''layla mid''"
      and s = example_page] i
  have 4: "\<exists>h l. team (snd (handleTeamInput asciiLowerCase ''layla mid'' example_page)) =
      team example_page @ [h @ ''-'' @ l]" by blast
  have p: "filter (\<lambda>p. p \<noteq> []) (split (CHR '' '') (asciiLowerCase ''Layla Mid'')) =
      [''layla'', ''mid'']" by code_simp
  have j: "fst (handleTeamInput asciiLowerCase ''Layla Mid'' example_page) = Accepted"
    by code_simp
  from team_entry_decoding [where toLowerCase = asciiLowerCase and input = "''Layla Mid''"
      and s = example_page and typedHero = "''layla''" and typedLane = "''mid''"] p j
  have "team (snd (handleTeamInput asciiLowerCase ''Layla Mid'' example_page)) =
      team example_page @ [''layla'' @ ''-'' @ ''mid'']" by blast
  with e have 8: "team (snd (handleTeamInput asciiLowerCase ''Layla Mid'' example_page)) =
      [''layla-mid'']" by simp
  from 1 e have 5: "team (snd (addHeroWithLane ''miya'' ''gold'' example_page)) = [''miya-gold'']"
    by simp
  from 2 have 6: "getHeroLane ''miya-gold'' = ''gold''" "entryHeroName ''miya-gold'' = ''miya''"
    by simp_all
  from 3 have 7: "entryHeroName ''lapu-lapu-exp'' = ''lapu''"
    "getHeroLane ''lapu-lapu-exp'' = ''lapu''" by simp_all
  show ?thesis by (intro conjI a 5 i 4 p j 8 6 7)
qed

text \<open>
  The claim as it was stated has \<^verbatim>\<open>getHeroLane\<close> return the substring after the first
  hyphen. For the entry of Lapu-Lapu in the exp lane that substring is \<open>''lapu-exp''\<close>; the
  function returns \<open>''lapu''\<close>.
\<close>

theorem getHeroLane_rest_counterexample:
  "team (snd (addHeroWithLane ''lapu-lapu'' ''exp'' example_page)) = [''lapu-lapu-exp''] \<and>
   tl (dropWhile (\<lambda>c. c \<noteq> CHR ''-'') ''lapu-lapu-exp'') = ''lapu-exp'' \<and>
   getHeroLane ''lapu-lapu-exp'' = ''lapu'' \<and>
   getHeroLane ''lapu-lapu-exp'' \<noteq> tl (dropWhile (\<lambda>c. c \<noteq> CHR ''-'') ''lapu-lapu-exp'')"
  by code_simp

section \<open>Adding to the team from a list button\<close>

text \<open>
  Claim C10. \<^verbatim>\<open>addHeroToList(heroName, 'team')\<close> never accepts: it rejects with
  DuplicateSelection or with the hint to type "hero lane", appends that one toast, and
  changes nothing else of the state; banned, enemy and team are as before. The "+ Add to
  Team" button of a recommendation is such a call, so it never modifies the team.
\<close>

theorem addHeroToList_team_changes_no_list:
  "(fst (addHeroToList heroName Team s) = Rejected DuplicateSelection \<or>
    fst (addHeroToList heroName Team s) = Rejected LaneRequired) \<and>
   snd (addHeroToList heroName Team s) =
     s\<lparr>toasts := toasts (snd (addHeroToList heroName Team s))\<rparr> \<and>
   (\<exists>t. toasts (snd (addHeroToList heroName Team s)) = toasts s @ [t]) \<and>
   banned (snd (addHeroToList heroName Team s)) = banned s \<and>
   enemy (snd (addHeroToList heroName Team s)) = enemy s \<and>
   team (snd (addHeroToList heroName Team s)) = team s \<and>
   banned (snd (clickAddToTeam rec s)) = banned s \<and>
   enemy (snd (clickAddToTeam rec s)) = enemy s \<and>
   team (snd (clickAddToTeam rec s)) = team s"
  by (simp add: addHeroToList_def clickAddToTeam_def reject_eq)

theorem addHeroToList_team_changes_no_list_witness:
  "fst (addHeroToList ''layla'' Team page_miya_gold) = Rejected LaneRequired \<and>
   team (snd (addHeroToList ''layla'' Team page_miya_gold)) = [''miya-gold''] \<and>
   banned (snd (addHeroToList ''layla'' Team page_miya_gold)) = [] \<and>
   enemy (snd (addHeroToList ''layla'' Team page_miya_gold)) = []"
proof -
  note T = addHeroToList_team_changes_no_list [of "''layla''" page_miya_gold]
  have "fst (addHeroToList ''layla'' Team page_miya_gold) \<noteq> Rejected DuplicateSelection"
    by code_simp
  with T have 1: "fst (addHeroToList ''layla'' Team page_miya_gold) = Rejected LaneRequired"
    by blast
  have 2: "team page_miya_gold = [''miya-gold'']" "banned page_miya_gold = []"
    "enemy page_miya_gold = []" by code_simp+
  from T 1 2 show ?thesis by simp
qed

section \<open>The search list of the page\<close>

text \<open>
  The heroes the page offers for selection are no selected ones: a hero of
  \<^verbatim>\<open>filteredHeroes\<close> is a loaded hero that matches the query, is not banned, is no enemy and
  has no team entry. The list is narrower than that, since the team test is a prefix test:
  with Valentina in the team, Vale is not offered either.
\<close>

lemma filteredHeroes_unselected:
  assumes "h \<in> set (filteredHeroes toLowerCase s)"
  shows "h \<in> set (heroes s)" "name h \<notin> set (banned s)" "name h \<notin> set (enemy s)"
    "name h @ ''-'' @ l \<notin> set (team s)"
    "includesStr (toLowerCase (name h)) (toLowerCase (searchQuery s))"
proof -
  from assms show "h \<in> set (heroes s)" "name h \<notin> set (banned s)" "name h \<notin> set (enemy s)"
    "includesStr (toLowerCase (name h)) (toLowerCase (searchQuery s))"
    by (simp_all add: filteredHeroes_def)
  from assms have "\<not> (\<exists>e \<in> set (team s). startsWith e (name h))"
    by (simp add: filteredHeroes_def)
  then show "name h @ ''-'' @ l \<notin> set (team s)"
    using startsWith_entry by blast
qed

lemma filteredHeroes_hides_prefix_hero:
  "team (snd (handleTeamInput asciiLowerCase ''valentina mid'' example_page)) = [''valentina-mid''] \<and>
   map name (filteredHeroes asciiLowerCase ((snd (handleTeamInput asciiLowerCase ''valentina mid'' example_page))
        \<lparr>searchQuery := ''val''\<rparr>)) = [] \<and>
   map name (filteredHeroes asciiLowerCase (example_page\<lparr>searchQuery := ''val''\<rparr>)) = [''vale'', ''valentina'']"
  by code_simp

section \<open>The user's lane\<close>






section \<open>The duplicate check\<close>




section \<open>The lane-taken check\<close>








chapter \<open>Properties of the engine\<close>

section \<open>The scenarios of the specification\<close>

text \<open>
  Scenario A of the specification, run through the model: Estes and Khufra are recommended
  with equal score, Estes first by name, each for the reasons the scenario names, and the
  team is physical-heavy. Valid drafts always get an answer.
\<close>

lemma analyze_scenario_A: "analyze (ds_team scenario_A) scenario_store = Some scenario_A_analysis"
  by code_simp

lemma analyze_scenario_B: "analyze (ds_team scenario_B) scenario_store_twin = Some scenario_B_analysis"
  by code_simp

lemma threats_scenario_B:
  "collect_threats scenario_store_twin (ds_enemy scenario_B) = Some [(''Layla'', [''Khufra''])]"
  by code_simp

lemma engine_scenario_A:
  "map_option (\<lambda>(rs, a, ts). (map hero rs, map priority rs, damage_balance a))
     (engine scenario_A scenario_store default_limit) =
   Some ([''Estes'', ''Khufra''], [8, 8], ''physical_heavy'')"
  by code_simp

lemma engine_scenario_A_reasons:
  "map_option (\<lambda>(rs, a, ts). map reasons rs) (engine scenario_A scenario_store default_limit) =
   Some [[''Fits requested lane'', ''Adds 1 new role(s) to team'', ''Fills missing lane(s): roam'',
          ''Improves damage balance''],
         [''Fits requested lane'', ''Adds 1 new role(s) to team'', ''Fills missing lane(s): roam'',
          ''Improves damage balance'']]"
  by code_simp

lemma get_all_total: "list_all (\<lambda>n. get st n \<noteq> None) ns \<Longrightarrow> get_all st ns \<noteq> None"
  by (induction ns) (auto split: option.splits)


lemma listCounters_total: "get st e \<noteq> None \<Longrightarrow> listCounters st e \<noteq> None"
  by (auto simp: listCounters_def)

lemma collect_threats_total:
  "list_all (\<lambda>n. get st n \<noteq> None) es \<Longrightarrow> collect_threats st es \<noteq> None"
proof (induction es)
  case Nil
  show ?case by simp
next
  case (Cons e es)
  then have "listCounters st e \<noteq> None" "collect_threats st es \<noteq> None"
    by (simp_all add: listCounters_total)
  then show ?case by auto
qed

lemma engine_total:
  assumes "valid_draft_state st d"
  shows "\<exists>rs a ts. engine d st limit = Some (rs, a, ts)"
proof -
  from assms have t: "list_all (\<lambda>n. get st n \<noteq> None) (map snd (ds_team d))"
    and e: "list_all (\<lambda>n. get st n \<noteq> None) (ds_enemy d)"
    by (simp_all add: valid_draft_state_def)
  from t have "get_all st (map snd (ds_team d)) \<noteq> None" by (rule get_all_total)
  then obtain a where a: "analyze (ds_team d) st = Some a"
    by (auto simp: analyze_def Let_def)
  from e have "collect_threats st (ds_enemy d) \<noteq> None" by (rule collect_threats_total)
  then obtain ts where ts: "collect_threats st (ds_enemy d) = Some ts" by blast
  show ?thesis by (simp add: engine_def a ts)
qed

lemma valid_scenarios:
  "valid_draft_state scenario_store scenario_A \<and> valid_draft_state scenario_store scenario_B"
  by code_simp

section \<open>Candidates\<close>

lemma same_hero_refl [simp]: "same_hero n n"
  by (simp add: same_hero_def)

lemma named_member: "n \<in> set ns \<Longrightarrow> named n ns"
  unfolding named_def by (rule bexI [of _ n]) simp_all

lemma named_append [simp]: "named n (xs @ ys) \<longleftrightarrow> named n xs \<or> named n ys"
  by (auto simp: named_def)

lemma hero_score [simp]: "hero (score d a threats c) = name c"
  by (simp add: score_def)

lemma set_recommend_subset:
  "set (recommend d a threats st limit) \<subseteq> score d a threats ` set (candidates d st)"
proof -
  have "set (recommend d a threats st limit)
      \<subseteq> set (sort_key rank_key (map (score d a threats) (candidates d st)))"
    unfolding recommend_def by (rule set_take_subset)
  then show ?thesis by simp
qed

lemma set_recommend_all:
  assumes "length (candidates d st) \<le> limit"
  shows "set (recommend d a threats st limit) = score d a threats ` set (candidates d st)"
  using assms by (simp add: recommend_def)

text \<open>
  Claim C1. For every Draft State, valid or not, and whatever analysis and threats are
  passed: a hero of the recommendation list is not in banned, not in enemy and not in a team
  lane, also when names are compared up to the case of their letters, and it is a hero of
  the store; the candidate set is exactly the store's heroes minus those named in banned, in
  enemy and in a team lane; and when the limit does not cut the list, the recommended heroes
  are exactly the candidates.
\<close>

theorem recommend_excludes_selected:
  "(\<forall>r \<in> set (recommend d a threats st limit).
      hero r \<notin> set (ds_banned d) \<and> hero r \<notin> set (ds_enemy d) \<and>
      hero r \<notin> snd ` set (ds_team d) \<and>
      \<not> named (hero r) (ds_banned d) \<and> \<not> named (hero r) (ds_enemy d) \<and>
      \<not> named (hero r) (map snd (ds_team d)) \<and>
      (\<exists>c \<in> set st. hero r = name c)) \<and>
   set (candidates d st) =
     set st - {h. named (name h) (ds_banned d)} - {h. named (name h) (ds_enemy d)}
       - {h. named (name h) (map snd (ds_team d))} \<and>
   (length (candidates d st) \<le> limit \<longrightarrow>
      hero ` set (recommend d a threats st limit) = name ` set (candidates d st))"
proof (intro conjI ballI impI)
  fix r assume "r \<in> set (recommend d a threats st limit)"
  with set_recommend_subset obtain c where c: "c \<in> set (candidates d st)" "r = score d a threats c"
    by blast
  then have n: "\<not> named (hero r) (selected d)" and m: "c \<in> set st"
    by (simp_all add: candidates_def)
  from n show nb: "\<not> named (hero r) (ds_banned d)" and ne: "\<not> named (hero r) (ds_enemy d)"
    and nt: "\<not> named (hero r) (map snd (ds_team d))"
    by (simp_all add: selected_def)
  from nb show "hero r \<notin> set (ds_banned d)" using named_member by blast
  from ne show "hero r \<notin> set (ds_enemy d)" using named_member by blast
  from nt show "hero r \<notin> snd ` set (ds_team d)" using named_member [of "hero r" "map snd (ds_team d)"]
    by auto
  from c m show "\<exists>c \<in> set st. hero r = name c" by auto
next
  show "set (candidates d st) =
     set st - {h. named (name h) (ds_banned d)} - {h. named (name h) (ds_enemy d)}
       - {h. named (name h) (map snd (ds_team d))}"
    by (auto simp: candidates_def selected_def)
next
  assume "length (candidates d st) \<le> limit"
  then have "set (recommend d a threats st limit) = score d a threats ` set (candidates d st)"
    by (rule set_recommend_all)
  then show "hero ` set (recommend d a threats st limit) = name ` set (candidates d st)"
    by (simp add: image_image)
qed

theorem recommend_excludes_selected_witness:
  "length (candidates scenario_A_banned scenario_store) \<le> default_limit \<and>
   ds_banned scenario_A_banned = [''ESTES''] \<and> ds_team scenario_A_banned = [(''gold'', ''Layla'')] \<and>
   hero ` set (recommend scenario_A_banned scenario_A_analysis [] scenario_store default_limit) =
     {''Khufra''}"
proof -
  note T = recommend_excludes_selected [of scenario_A_banned scenario_A_analysis "[]"
      scenario_store default_limit]
  have 1: "length (candidates scenario_A_banned scenario_store) \<le> default_limit" by code_simp
  have 2: "map name (candidates scenario_A_banned scenario_store) = [''Khufra'']" by code_simp
  have 3: "ds_banned scenario_A_banned = [''ESTES'']"
    "ds_team scenario_A_banned = [(''gold'', ''Layla'')]" by code_simp+
  from T 1 have "hero ` set (recommend scenario_A_banned scenario_A_analysis [] scenario_store
      default_limit) = name ` set (candidates scenario_A_banned scenario_store)" by blast
  also have "\<dots> = set (map name (candidates scenario_A_banned scenario_store))" by simp
  also have "\<dots> = {''Khufra''}" unfolding 2 by simp
  finally show ?thesis using 1 3 by simp
qed

section \<open>Ranking\<close>

lemma rank_key_le:
  "rank_key r \<le> rank_key r' \<longleftrightarrow>
     priority r' < priority r \<or> priority r' = priority r \<and> hero r \<le> hero r'"
  by (auto simp: rank_key_def less_eq_prod_def)

lemma sorted_recommend: "sorted (map rank_key (recommend d a threats st limit))"
  unfolding recommend_def take_map [symmetric] by (intro sorted_wrt_take) simp

lemma score_inj_on:
  assumes "distinct (map name st)"
  shows "inj_on rank_key (score d a threats ` set (candidates d st))"
proof (rule inj_onI)
  fix x y
  assume x: "x \<in> score d a threats ` set (candidates d st)"
    and y: "y \<in> score d a threats ` set (candidates d st)"
    and eq: "rank_key x = rank_key y"
  from x obtain c where c: "c \<in> set st" "x = score d a threats c"
    by (auto simp: candidates_def)
  from y obtain c' where c': "c' \<in> set st" "y = score d a threats c'"
    by (auto simp: candidates_def)
  from eq c c' have "name c = name c'" by (simp add: rank_key_def)
  with assms c(1) c'(1) have "c = c'"
    by (meson distinct_map inj_onD)
  with c c' show "x = y" by simp
qed

lemma recommend_store_order:
  assumes d: "distinct (map name st)" "distinct (map name st')" and s: "set st' = set st"
  shows "recommend d a threats st' limit = recommend d a threats st limit"
proof -
  let ?xs = "map (score d a threats) (candidates d st)"
  let ?ys = "map (score d a threats) (candidates d st')"
  have cs: "set (candidates d st') = set (candidates d st)"
    by (simp add: candidates_def s)
  then have sets: "set ?ys = set ?xs" by simp
  have inj: "inj_on rank_key (set ?xs)" using score_inj_on [OF d(1)] by simp
  have dst: "distinct st" "distinct st'" using d by (simp_all add: distinct_map)
  have inj_score: "inj_on (score d a threats) (set st)"
  proof (rule inj_onI)
    fix x y assume "x \<in> set st" "y \<in> set st" "score d a threats x = score d a threats y"
    then have "name x = name y" by (metis hero_score)
    with d(1) \<open>x \<in> set st\<close> \<open>y \<in> set st\<close> show "x = y" by (meson distinct_map inj_onD)
  qed
  have dx: "distinct ?xs"
    using dst(1) inj_score
    by (auto simp: distinct_map candidates_def intro: inj_on_subset)
  have dy: "distinct ?ys"
    using dst(2) inj_score s
    by (auto simp: distinct_map candidates_def intro: inj_on_subset)
  have kx: "distinct (map rank_key (sort_key rank_key ?xs))"
    using dx inj by (simp add: distinct_map)
  have ky: "distinct (map rank_key (sort_key rank_key ?ys))"
    using dy inj sets by (simp add: distinct_map)
  have "map rank_key (sort_key rank_key ?ys) = map rank_key (sort_key rank_key ?xs)"
    by (rule sorted_distinct_set_unique) (use kx ky sets in simp_all)
  moreover have "inj_on rank_key (set (sort_key rank_key ?ys) \<union> set (sort_key rank_key ?xs))"
    using inj sets by simp
  ultimately have "sort_key rank_key ?ys = sort_key rank_key ?xs"
    by (simp add: inj_on_map_eq_map)
  then show ?thesis by (simp add: recommend_def)
qed

text \<open>
  Claim C2. For every Draft State the recommendation list is sorted by descending score,
  ties by ascending hero name: of two entries the later one never has the higher score, and
  at equal scores never the smaller name. The list has at most \<open>limit\<close> entries. Equal inputs
  give equal lists; more than that, the list does not depend on the order in which the store
  lists its heroes, as long as their names are distinct.
\<close>

theorem recommend_ranked:
  "sorted_wrt
     (\<lambda>r r'. priority r' < priority r \<or> priority r' = priority r \<and> hero r \<le> hero r')
     (recommend d a threats st limit) \<and>
   (\<forall>i j. i < j \<and> j < length (recommend d a threats st limit) \<longrightarrow>
      priority (recommend d a threats st limit ! j) \<le> priority (recommend d a threats st limit ! i) \<and>
      (priority (recommend d a threats st limit ! j) = priority (recommend d a threats st limit ! i)
         \<longrightarrow> hero (recommend d a threats st limit ! i) \<le> hero (recommend d a threats st limit ! j))) \<and>
   length (recommend d a threats st limit) \<le> limit \<and>
   (d' = d \<and> a' = a \<and> threats' = threats \<and> st' = st \<and> limit' = limit \<longrightarrow>
      recommend d' a' threats' st' limit' = recommend d a threats st limit) \<and>
   (distinct (map name st) \<and> distinct (map name st'') \<and> set st'' = set st \<longrightarrow>
      recommend d a threats st'' limit = recommend d a threats st limit)"
proof -
  have s: "sorted_wrt
     (\<lambda>r r'. priority r' < priority r \<or> priority r' = priority r \<and> hero r \<le> hero r')
     (recommend d a threats st limit)"
    using sorted_recommend [of d a threats st limit]
    by (simp add: sorted_map rank_key_le)
  have n: "\<forall>i j. i < j \<and> j < length (recommend d a threats st limit) \<longrightarrow>
      priority (recommend d a threats st limit ! j) \<le> priority (recommend d a threats st limit ! i) \<and>
      (priority (recommend d a threats st limit ! j) = priority (recommend d a threats st limit ! i)
         \<longrightarrow> hero (recommend d a threats st limit ! i) \<le> hero (recommend d a threats st limit ! j))"
  proof (intro allI impI)
    fix i j assume ij: "i < j \<and> j < length (recommend d a threats st limit)"
    with s have "priority (recommend d a threats st limit ! j)
          < priority (recommend d a threats st limit ! i) \<or>
        priority (recommend d a threats st limit ! j) =
          priority (recommend d a threats st limit ! i) \<and>
        hero (recommend d a threats st limit ! i) \<le> hero (recommend d a threats st limit ! j)"
      by (simp add: sorted_wrt_iff_nth_less)
    then show "priority (recommend d a threats st limit ! j)
          \<le> priority (recommend d a threats st limit ! i) \<and>
      (priority (recommend d a threats st limit ! j) = priority (recommend d a threats st limit ! i)
         \<longrightarrow> hero (recommend d a threats st limit ! i) \<le> hero (recommend d a threats st limit ! j))"
      by auto
  qed
  have l: "length (recommend d a threats st limit) \<le> limit"
    by (simp add: recommend_def)
  from s n l recommend_store_order show ?thesis by blast
qed

theorem recommend_ranked_witness:
  "map hero (recommend scenario_B scenario_B_analysis [(''Layla'', [''Khufra''])]
       scenario_store_twin default_limit) = [''Khufra'', ''Atlas'', ''Estes''] \<and>
   map priority (recommend scenario_B scenario_B_analysis [(''Layla'', [''Khufra''])]
       scenario_store_twin default_limit) = [9, 13 / 2, 13 / 2] \<and>
   distinct (map name scenario_store_twin) \<and>
   recommend scenario_B scenario_B_analysis [(''Layla'', [''Khufra''])]
       (rev scenario_store_twin) default_limit =
   recommend scenario_B scenario_B_analysis [(''Layla'', [''Khufra''])]
       scenario_store_twin default_limit"
proof -
  note T = recommend_ranked [where d = scenario_B and a = scenario_B_analysis
      and threats = "[(''Layla'', [''Khufra''])]" and st = scenario_store_twin
      and limit = default_limit and st'' = "rev scenario_store_twin"]
  have 1: "map hero (recommend scenario_B scenario_B_analysis [(''Layla'', [''Khufra''])]
       scenario_store_twin default_limit) = [''Khufra'', ''Atlas'', ''Estes'']" by code_simp
  have 2: "map priority (recommend scenario_B scenario_B_analysis [(''Layla'', [''Khufra''])]
       scenario_store_twin default_limit) = [9, 13 / 2, 13 / 2]" by code_simp
  have 3: "distinct (map name scenario_store_twin)" by code_simp
  have 4: "distinct (map name (rev scenario_store_twin))"
    using 3 by (simp add: rev_map [symmetric])
  have 5: "set (rev scenario_store_twin) = set scenario_store_twin" by simp
  from T 3 4 5 have "recommend scenario_B scenario_B_analysis [(''Layla'', [''Khufra''])]
       (rev scenario_store_twin) default_limit =
   recommend scenario_B scenario_B_analysis [(''Layla'', [''Khufra''])]
       scenario_store_twin default_limit" by blast
  with 1 2 3 show ?thesis by blast
qed

section \<open>Counter value\<close>








section \<open>Damage balance\<close>

lemma count_damage_deals:
  "get_all st ns = Some hs \<Longrightarrow> count_damage ty hs = length (filter (deals st ty) ns)"
proof (induction ns arbitrary: hs)
  case Nil
  then show ?case by simp
next
  case (Cons n ns)
  then show ?case
    by (auto simp: deals_def split: option.splits)
qed

lemma balance_of_cases:
  "(balance_of P M = ''balanced'' \<longleftrightarrow> 1 \<le> P \<and> 1 \<le> M) \<and>
   (\<not> (1 \<le> P \<and> 1 \<le> M) \<and> M < P \<longrightarrow> balance_of P M = ''physical_heavy'') \<and>
   (\<not> (1 \<le> P \<and> 1 \<le> M) \<and> P \<le> M \<longrightarrow> balance_of P M = ''magic_heavy'')"
  by (simp add: balance_of_def)

text \<open>
  Claim C4. Let \<open>P\<close> be the number of team heroes that deal physical damage and \<open>M\<close> the number
  that deal magic damage (a hero dealing both counts in both). Whenever \<open>analyze\<close> returns an
  analysis, its \<open>damage_balance\<close> is "balanced" exactly when \<open>P \<ge> 1\<close> and \<open>M \<ge> 1\<close>;
  otherwise it is "physical_heavy" when \<open>P > M\<close> and "magic_heavy" when \<open>P \<le> M\<close>. And
  \<open>analyze\<close> does return an analysis for every team whose heroes are all in the store.
\<close>

theorem damage_balance_by_counts:
  "(analyze tm st = Some a \<longrightarrow>
      (damage_balance a = ''balanced'' \<longleftrightarrow>
         1 \<le> length (filter (deals st ''physical'') (map snd tm)) \<and>
         1 \<le> length (filter (deals st ''magic'') (map snd tm))) \<and>
      (\<not> (1 \<le> length (filter (deals st ''physical'') (map snd tm)) \<and>
          1 \<le> length (filter (deals st ''magic'') (map snd tm))) \<and>
       length (filter (deals st ''magic'') (map snd tm))
         < length (filter (deals st ''physical'') (map snd tm)) \<longrightarrow>
         damage_balance a = ''physical_heavy'') \<and>
      (\<not> (1 \<le> length (filter (deals st ''physical'') (map snd tm)) \<and>
          1 \<le> length (filter (deals st ''magic'') (map snd tm))) \<and>
       length (filter (deals st ''physical'') (map snd tm))
         \<le> length (filter (deals st ''magic'') (map snd tm)) \<longrightarrow>
         damage_balance a = ''magic_heavy'')) \<and>
   (list_all (\<lambda>n. get st n \<noteq> None) (map snd tm) \<longrightarrow> (\<exists>a'. analyze tm st = Some a'))"
proof (intro conjI impI)
  assume an: "analyze tm st = Some a"
  then obtain hs where hs: "get_all st (map snd tm) = Some hs"
    by (auto simp: analyze_def split: option.splits)
  with an have "damage_balance a =
      balance_of (count_damage ''physical'' hs) (count_damage ''magic'' hs)"
    by (auto simp: analyze_def Let_def)
  then have b: "damage_balance a =
      balance_of (length (filter (deals st ''physical'') (map snd tm)))
        (length (filter (deals st ''magic'') (map snd tm)))"
    by (simp add: count_damage_deals [OF hs])
  show "damage_balance a = ''balanced'' \<longleftrightarrow>
         1 \<le> length (filter (deals st ''physical'') (map snd tm)) \<and>
         1 \<le> length (filter (deals st ''magic'') (map snd tm))"
    unfolding b using balance_of_cases by blast
  {
    assume "\<not> (1 \<le> length (filter (deals st ''physical'') (map snd tm)) \<and>
          1 \<le> length (filter (deals st ''magic'') (map snd tm))) \<and>
       length (filter (deals st ''magic'') (map snd tm))
         < length (filter (deals st ''physical'') (map snd tm))"
    then show "damage_balance a = ''physical_heavy''"
      unfolding b using balance_of_cases by blast
  }
  {
    assume "\<not> (1 \<le> length (filter (deals st ''physical'') (map snd tm)) \<and>
          1 \<le> length (filter (deals st ''magic'') (map snd tm))) \<and>
       length (filter (deals st ''physical'') (map snd tm))
         \<le> length (filter (deals st ''magic'') (map snd tm))"
    then show "damage_balance a = ''magic_heavy''"
      unfolding b using balance_of_cases by blast
  }
next
  assume "list_all (\<lambda>n. get st n \<noteq> None) (map snd tm)"
  then have "get_all st (map snd tm) \<noteq> None" by (rule get_all_total)
  then show "\<exists>a'. analyze tm st = Some a'"
    by (auto simp: analyze_def Let_def)
qed

theorem damage_balance_by_counts_witness:
  "analyze (ds_team scenario_A) scenario_store = Some scenario_A_analysis \<and>
   length (filter (deals scenario_store ''physical'') (map snd (ds_team scenario_A))) = 1 \<and>
   length (filter (deals scenario_store ''magic'') (map snd (ds_team scenario_A))) = 0 \<and>
   damage_balance scenario_A_analysis = ''physical_heavy'' \<and>
   analyze [] scenario_store = Some scenario_B_analysis \<and>
   damage_balance scenario_B_analysis = ''magic_heavy'' \<and>
   list_all (\<lambda>n. get scenario_store n \<noteq> None)
     (map snd [(''gold'', ''layla''), (''roam'', ''ESTES'')]) \<and>
   (\<exists>a. analyze [(''gold'', ''layla''), (''roam'', ''ESTES'')] scenario_store = Some a \<and>
        damage_balance a = ''balanced'')"
proof -
  note A = damage_balance_by_counts [of "ds_team scenario_A" scenario_store scenario_A_analysis]
  note B = damage_balance_by_counts [of "[]" scenario_store scenario_B_analysis]
  have 1: "length (filter (deals scenario_store ''physical'') (map snd (ds_team scenario_A))) = 1"
    by code_simp
  have 2: "length (filter (deals scenario_store ''magic'') (map snd (ds_team scenario_A))) = 0"
    by code_simp
  from A analyze_scenario_A 1 2 have 3: "damage_balance scenario_A_analysis = ''physical_heavy''"
    by simp
  have 4: "analyze [] scenario_store = Some scenario_B_analysis" by code_simp
  from B 4 have 5: "damage_balance scenario_B_analysis = ''magic_heavy''" by simp
  have 6: "list_all (\<lambda>n. get scenario_store n \<noteq> None)
      (map snd [(''gold'', ''layla''), (''roam'', ''ESTES'')])" by code_simp
  have 7: "length (filter (deals scenario_store ''physical'')
      (map snd [(''gold'', ''layla''), (''roam'', ''ESTES'')])) = 1"
    "length (filter (deals scenario_store ''magic'')
      (map snd [(''gold'', ''layla''), (''roam'', ''ESTES'')])) = 1" by code_simp+
  from damage_balance_by_counts [of "[(''gold'', ''layla''), (''roam'', ''ESTES'')]" scenario_store] 6
  obtain a where a: "analyze [(''gold'', ''layla''), (''roam'', ''ESTES'')] scenario_store = Some a"
    by blast
  from damage_balance_by_counts [of "[(''gold'', ''layla''), (''roam'', ''ESTES'')]" scenario_store a]
    a 7
  have "damage_balance a = ''balanced''" by simp
  with a have 8: "\<exists>a. analyze [(''gold'', ''layla''), (''roam'', ''ESTES'')] scenario_store = Some a \<and>
        damage_balance a = ''balanced''" by blast
  show ?thesis by (intro conjI analyze_scenario_A 1 2 3 4 5 6 8)
qed

end
